theory Spec2Isabelle
  imports Complex_Main "HOL-Library.Word"
begin

section \<open>The flight feedback controller of rc\_pilot (feedback\_controller.c)\<close>

text \<open>
  A shallow embedding of \<^verbatim>\<open>src/feedback_controller.c\<close>. The module keeps its state in
  file-level globals and in four structs it reaches through pointers; the embedding
  gathers them in one record that every function takes and returns. Calls that act on the
  outside world (ESC pulses, LEDs, the console, the log manager) are returned as a list
  of events, in call order.

  C \<^verbatim>\<open>double\<close> values are modelled as real numbers. Where a double computation would
  leave the finite numbers (a division by zero) the model stops with an error value instead
  of continuing with a real number the C program never has.

  The file under \<^verbatim>\<open>src/\<close> spells a few identifiers in two ways. They are read as one
  object each: \<^verbatim>\<open>new_mot\<close> (lines 357 to 360) is the local \<^verbatim>\<open>mot\<close>;
  \<^verbatim>\<open>set.x\<close> is \<^verbatim>\<open>set->x\<close>; \<^verbatim>\<open>d_yaw\<close> is \<^verbatim>\<open>D_yaw\<close>;
  \<^verbatim>\<open>last_alt_ctrl_en\<close> is \<^verbatim>\<open>last_en_alt_ctrl\<close>; \<^verbatim>\<open>cs->vbatt\<close> is
  \<^verbatim>\<open>cs->v_batt\<close>. \<^verbatim>\<open>last_arm_state\<close> is assigned but never declared in the file;
  it is kept as one more global.
\<close>

subsection \<open>Types\<close>

datatype arm_state_t = DISARMED | ARMED

datatype rc_state_t = UNINITIALIZED | RUNNING | PAUSED | EXITING

datatype led_t = GREEN | RED

text \<open>The indices of \<^verbatim>\<open>u[6]\<close> and of the mixing matrix columns.\<close>

datatype axis = VEC_X | VEC_Y | VEC_THR | VEC_ROLL | VEC_PITCH | VEC_YAW

text \<open>
  Modelled from the spec: the struct \<^verbatim>\<open>d_filter_t\<close> comes from the roboticscape library
  and is not in the repository. The spec's DiscreteFilter has coefficients, a delay line
  (inputs and outputs, newest first), a mutable gain, a soft-start ramp and an optional
  output clamp.
\<close>

record d_filter_t =
  gain :: real
  numerator :: "real list"
  denominator :: "real list"
  in_buf :: "real list"
  out_buf :: "real list"
  sat_en :: bool
  sat_min :: real
  sat_max :: real
  ss_en :: bool
  ss_steps :: real
  ss_step :: nat

record setpoint_t =
  sp_roll :: real
  sp_pitch :: real
  sp_yaw :: real
  sp_yaw_rate :: real
  Z_throttle :: real
  X_throttle :: real
  Y_throttle :: real
  en_rpy_ctrl :: bool
  en_6dof :: bool

record cstate_t =
  cs_roll :: real
  cs_pitch :: real
  cs_yaw :: real
  cs_alt :: real
  cs_v_batt :: real
  cs_m :: "nat \<Rightarrow> real"

record imu_data_t =
  fusedTaitBryan_X :: real
  fusedTaitBryan_Y :: real
  fusedTaitBryan_Z :: real

record fly_settings_t =
  num_rotors :: int
  v_nominal :: real
  enable_logging :: bool

record log_entry_t =
  log_loop_index :: "64 word"
  log_alt :: real
  log_roll :: real
  log_pitch :: real
  log_yaw :: real
  log_vbatt :: real
  log_u_thr :: real
  log_u_roll :: real
  log_u_pitch :: real
  log_u_yaw :: real
  log_u_X :: real
  log_u_Y :: real
  log_mot_1 :: real
  log_mot_2 :: real
  log_mot_3 :: real
  log_mot_4 :: real
  log_mot_5 :: real
  log_mot_6 :: real

text \<open>
  The globals of the file (lines 23 to 49), the four outside structs behind the pointers
  \<^verbatim>\<open>sp\<close>, \<^verbatim>\<open>cs\<close>, \<^verbatim>\<open>imu\<close>, \<^verbatim>\<open>set\<close>, and the library's run state that
  \<^verbatim>\<open>get_state()\<close> reads. \<^verbatim>\<open>last_yaw\<close> is declared \<^verbatim>\<open>int\<close> (line 42),
  \<^verbatim>\<open>loop_index\<close> is a \<^verbatim>\<open>uint64_t\<close>. \<^verbatim>\<open>num_yaw_spins\<close> is a C \<^verbatim>\<open>int\<close>
  modelled as an unbounded integer: its overflow is undefined in C and needs more than
  two thousand million full turns.
\<close>

record controller =
  arm_state :: arm_state_t
  last_arm_state :: arm_state_t
  D_roll :: d_filter_t
  D_pitch :: d_filter_t
  D_yaw :: d_filter_t
  D_roll_gain_orig :: real
  D_pitch_gain_orig :: real
  D_yaw_gain_orig :: real
  sp :: setpoint_t
  cs :: cstate_t
  imu :: imu_data_t
  settings :: fly_settings_t
  new_log :: log_entry_t
  num_yaw_spins :: int
  last_yaw :: int
  u :: "axis \<Rightarrow> real"
  loop_index :: "64 word"
  last_en_alt_ctrl :: int
  last_usr_thr :: real
  rc_state :: rc_state_t

text \<open>Calls into the outside world, recorded in call order.\<close>

datatype event =
    Esc int real
  | Led led_t int
  | Printf string
  | Start_log
  | Stop_log
  | Add_log log_entry_t

text \<open>
  Where the real-number model of a tick stops: a write past the end of the local array
  \<^verbatim>\<open>mot[ROTORS]\<close>, or a division by zero.
\<close>

datatype error = Mot_overrun | Not_finite

text \<open>
  The constants of \<^verbatim>\<open>fly_defs.h\<close> and the functions of the mixer and of the filter
  library that the tick calls; none of them is in \<^verbatim>\<open>src/\<close>, so the tick takes them as
  parameters. \<^verbatim>\<open>march_filter\<close> returns the output and the filter with its updated
  memory; \<^verbatim>\<open>add_mixed_input\<close> returns the updated motor array;
  \<^verbatim>\<open>check_channel_saturation\<close> returns what it writes to \<^verbatim>\<open>min\<close> and \<^verbatim>\<open>max\<close>.
\<close>

record platform =
  TIP_ANGLE :: real
  MIN_THRUST_COMPONENT :: real
  MAX_THRUST_COMPONENT :: real
  MAX_ROLL_COMPONENT :: real
  MAX_PITCH_COMPONENT :: real
  MAX_YAW_COMPONENT :: real
  MAX_X_COMPONENT :: real
  MAX_Y_COMPONENT :: real
  DT :: real
  ROTORS :: int
  march_filter :: "d_filter_t \<Rightarrow> real \<Rightarrow> real \<times> d_filter_t"
  add_mixed_input :: "real \<Rightarrow> axis \<Rightarrow> (nat \<Rightarrow> real) \<Rightarrow> (nat \<Rightarrow> real)"
  check_channel_saturation :: "axis \<Rightarrow> (nat \<Rightarrow> real) \<Rightarrow> real \<times> real"

subsection \<open>Library functions\<close>

text \<open>The macros \<^verbatim>\<open>PI\<close> and \<^verbatim>\<open>TWO_PI\<close> of roboticscape.h.\<close>

definition PI :: real where
  "PI = pi"

definition TWO_PI :: real where
  "TWO_PI = 2 * pi"

text \<open>The conversion of a \<^verbatim>\<open>double\<close> to \<^verbatim>\<open>int\<close> in C truncates toward zero.\<close>

definition double_to_int :: "real \<Rightarrow> int" where
  "double_to_int x = (if 0 \<le> x then \<lfloor>x\<rfloor> else \<lceil>x\<rceil>)"

text \<open>
  Modelled from the spec: \<^verbatim>\<open>saturate_double(&val, min, max)\<close> is a roboticscape function,
  not in the repository. The spec calls it a clamp of the value to \<^verbatim>\<open>[min, max]\<close>; the
  library refuses a window with \<^verbatim>\<open>min > max\<close> and leaves the value as it is.
\<close>

definition saturate_double :: "real \<Rightarrow> real \<Rightarrow> real \<Rightarrow> real" where
  "saturate_double val lo hi =
     (if lo > hi then val else if val > hi then hi else if val < lo then lo else val)"

text \<open>
  Modelled from the spec: \<^verbatim>\<open>reset_filter\<close> (roboticscape) zeroes the delay line and
  re-arms the soft start.
\<close>

definition reset_filter :: "d_filter_t \<Rightarrow> d_filter_t" where
  "reset_filter D =
     D\<lparr>in_buf := replicate (length (in_buf D)) 0,
       out_buf := replicate (length (out_buf D)) 0,
       ss_step := 0\<rparr>"

text \<open>
  Modelled from the spec: \<^verbatim>\<open>enable_saturation\<close> (roboticscape) records the clamp window
  for the following \<^verbatim>\<open>march_filter\<close> calls.
\<close>

definition enable_saturation :: "d_filter_t \<Rightarrow> real \<Rightarrow> real \<Rightarrow> d_filter_t" where
  "enable_saturation D lo hi = D\<lparr>sat_en := True, sat_min := lo, sat_max := hi\<rparr>"

subsection \<open>Arming and disarming (lines 66 to 105)\<close>

definition disarm_controller :: "controller \<Rightarrow> int \<times> controller \<times> event list" where
  "disarm_controller w =
     (0, w\<lparr>arm_state := DISARMED\<rparr>, [Led RED 1, Led GREEN 0, Stop_log])"

definition zero_out_controller :: "platform \<Rightarrow> controller \<Rightarrow> int \<times> controller" where
  "zero_out_controller P w =
     (0, w\<lparr>D_roll := reset_filter (D_roll w),
           D_pitch := reset_filter (D_pitch w),
           D_yaw := reset_filter (D_yaw w),
           last_en_alt_ctrl := 0,
           last_usr_thr := MIN_THRUST_COMPONENT P,
           num_yaw_spins := 0,
           last_yaw := double_to_int (- fusedTaitBryan_Z (imu w))\<rparr>)"

definition arm_warning :: string where
  "arm_warning = ''WARNING: trying to arm when controller is already armed'' @ [CHR 0x0A]"

definition arm_controller :: "platform \<Rightarrow> controller \<Rightarrow> int \<times> controller \<times> event list" where
  "arm_controller P w =
     (if arm_state w = ARMED then (- 1, w, [Printf arm_warning])
      else
        let ev_log = (if enable_logging (settings w) then [Start_log] else []);
            w1 = snd (zero_out_controller P w)
        in (0, w1\<lparr>arm_state := ARMED\<rparr>, ev_log @ [Led RED 0, Led GREEN 1]))"

definition get_controller_arm_state :: "controller \<Rightarrow> arm_state_t" where
  "get_controller_arm_state w = arm_state w"

subsection \<open>Idle motors (lines 170 to 178)\<close>

text \<open>The loop \<^verbatim>\<open>for(i=1;i<=set->num_rotors;i++) send_esc_pulse_normalized(i,-0.1)\<close>.\<close>

function idle_loop :: "int \<Rightarrow> int \<Rightarrow> event list" where
  "idle_loop i n = (if i \<le> n then Esc i (- (1 / 10)) # idle_loop (i + 1) n else [])"
  by pat_completeness auto
termination
  by (relation "measure (\<lambda>(i, n). nat (n + 1 - i))") auto

declare idle_loop.simps [simp del]

definition idle_error :: string where
  "idle_error = ''ERROR: set_motors_to_idle: too many rotors'' @ [CHR 0x0A]"

definition set_motors_to_idle :: "controller \<Rightarrow> int \<times> event list" where
  "set_motors_to_idle w =
     (if num_rotors (settings w) > 8 then (- 1, [Printf idle_error])
      else (0, idle_loop 1 (num_rotors (settings w))))"

subsection \<open>The tick (lines 186 to 390)\<close>

text \<open>State estimation, lines 198 to 209.\<close>

definition state_estimation :: "controller \<Rightarrow> controller" where
  "state_estimation w =
     (let c1 = (cs w)\<lparr>cs_roll := fusedTaitBryan_Y (imu w), cs_pitch := fusedTaitBryan_X (imu w)\<rparr>;
          tmp = - fusedTaitBryan_Z (imu w) + of_int (num_yaw_spins w) * TWO_PI;
          n = (if tmp - of_int (last_yaw w) < - PI then num_yaw_spins w + 1
               else if tmp - of_int (last_yaw w) > PI then num_yaw_spins w - 1
               else num_yaw_spins w);
          yaw = fusedTaitBryan_Z (imu w) + of_int n * TWO_PI
      in w\<lparr>cs := c1\<lparr>cs_yaw := yaw\<rparr>, num_yaw_spins := n, last_yaw := double_to_int yaw\<rparr>)"

text \<open>The paused-while-armed gate, lines 218 to 221.\<close>

definition pause_gate :: "controller \<Rightarrow> controller \<times> event list" where
  "pause_gate w =
     (if rc_state w \<noteq> RUNNING \<and> arm_state w = ARMED
      then (let (r, w1, ev) = disarm_controller w in (w1\<lparr>last_arm_state := DISARMED\<rparr>, ev))
      else (w, []))"

definition tipover_message :: string where
  "tipover_message = [CHR 0x0A] @ '' TIPOVER DETECTED '' @ [CHR 0x0A]"

text \<open>Direct throttle with tilt compensation, lines 276 to 282.\<close>

definition throttle :: "platform \<Rightarrow> controller \<Rightarrow> (nat \<Rightarrow> real) \<Rightarrow> error + controller \<times> (nat \<Rightarrow> real)" where
  "throttle P w mot =
     (if cos (cs_roll (cs w)) * cos (cs_pitch (cs w)) = 0 then Inl Not_finite
      else
        let tmp = Z_throttle (sp w) / (cos (cs_roll (cs w)) * cos (cs_pitch (cs w)));
            tmp = saturate_double tmp (- MIN_THRUST_COMPONENT P) (- MAX_THRUST_COMPONENT P);
            w1 = w\<lparr>u := (u w)(VEC_THR := tmp)\<rparr>;
            mot1 = add_mixed_input P (u w1 VEC_THR) VEC_THR mot
        in Inr (w1\<lparr>last_usr_thr := Z_throttle (sp w1), last_en_alt_ctrl := 0\<rparr>, mot1))"

text \<open>
  The six lines the source repeats for roll, pitch and yaw (289 to 294, 298 to 303,
  310 to 315): the headroom of the channel, cut to the component limit, becomes the
  filter's clamp; the gain is rescaled by the battery voltage; the filter marches.
  The result is the filter before the march (after the gain assignment), the filter after
  it, and the output.
\<close>

definition limit_window :: "real \<Rightarrow> real \<times> real \<Rightarrow> real \<times> real" where
  "limit_window c mm =
     (let mx = (if snd mm > c then c else snd mm);
          mn = (if fst mm < - c then - c else fst mm)
      in (mn, mx))"

definition schedule_gain :: "controller \<Rightarrow> real \<Rightarrow> d_filter_t \<Rightarrow> d_filter_t" where
  "schedule_gain w gain_orig D = D\<lparr>gain := gain_orig * v_nominal (settings w) / cs_v_batt (cs w)\<rparr>"

definition axis_filter :: "platform \<Rightarrow> controller \<Rightarrow> axis \<Rightarrow> real \<Rightarrow> real \<Rightarrow> d_filter_t \<Rightarrow> (nat \<Rightarrow> real) \<Rightarrow> d_filter_t" where
  "axis_filter P w a c gain_orig D mot =
     (let (mn, mx) = limit_window c (check_channel_saturation P a mot)
      in schedule_gain w gain_orig (enable_saturation D mn mx))"

text \<open>Roll, pitch and yaw, lines 287 to 322.\<close>

definition rpy :: "platform \<Rightarrow> controller \<Rightarrow> (nat \<Rightarrow> real) \<Rightarrow> error + controller \<times> (nat \<Rightarrow> real)" where
  "rpy P w mot =
     (if en_rpy_ctrl (sp w) then
        (if cs_v_batt (cs w) = 0 then Inl Not_finite
         else
           let (y1, D1) = march_filter P
                 (axis_filter P w VEC_ROLL (MAX_ROLL_COMPONENT P) (D_roll_gain_orig w) (D_roll w) mot)
                 (sp_roll (sp w) - cs_roll (cs w));
               w1 = w\<lparr>D_roll := D1, u := (u w)(VEC_ROLL := y1)\<rparr>;
               mot1 = add_mixed_input P (u w1 VEC_ROLL) VEC_ROLL mot;
               (y2, D2) = march_filter P
                 (axis_filter P w1 VEC_PITCH (MAX_PITCH_COMPONENT P) (D_pitch_gain_orig w1) (D_pitch w1) mot1)
                 (sp_pitch (sp w1) - cs_pitch (cs w1));
               w2 = w1\<lparr>D_pitch := D2, u := (u w1)(VEC_PITCH := y2)\<rparr>;
               mot2 = add_mixed_input P (u w2 VEC_PITCH) VEC_PITCH mot1;
               w3 = w2\<lparr>sp := (sp w2)\<lparr>sp_yaw := sp_yaw (sp w2) + DT P * sp_yaw_rate (sp w2)\<rparr>\<rparr>;
               (y3, D3) = march_filter P
                 (axis_filter P w3 VEC_YAW (MAX_YAW_COMPONENT P) (D_yaw_gain_orig w3) (D_yaw w3) mot2)
                 (sp_yaw (sp w3) - cs_yaw (cs w3));
               w4 = w3\<lparr>D_yaw := D3, u := (u w3)(VEC_YAW := y3)\<rparr>;
               mot3 = add_mixed_input P (u w4 VEC_YAW) VEC_YAW mot2
           in Inr (w4, mot3))
      else Inr (w\<lparr>u := (u w)(VEC_ROLL := 0, VEC_PITCH := 0, VEC_YAW := 0)\<rparr>, mot))"

text \<open>The lateral inputs, lines 327 to 349.\<close>

definition sixdof :: "platform \<Rightarrow> controller \<Rightarrow> (nat \<Rightarrow> real) \<Rightarrow> controller \<times> (nat \<Rightarrow> real)" where
  "sixdof P w mot =
     (if en_6dof (sp w) then
        let w1 = w\<lparr>u := (u w)(VEC_Y := X_throttle (sp w))\<rparr>;
            (mn, mx) = limit_window (MAX_X_COMPONENT P) (check_channel_saturation P VEC_Y mot);
            w2 = w1\<lparr>u := (u w1)(VEC_Y := saturate_double (u w1 VEC_Y) mn mx)\<rparr>;
            mot1 = add_mixed_input P (u w2 VEC_Y) VEC_Y mot;
            w3 = w2\<lparr>u := (u w2)(VEC_X := Y_throttle (sp w2))\<rparr>;
            (mn, mx) = limit_window (MAX_Y_COMPONENT P) (check_channel_saturation P VEC_X mot1);
            w4 = w3\<lparr>u := (u w3)(VEC_X := saturate_double (u w3 VEC_X) mn mx)\<rparr>;
            mot2 = add_mixed_input P (u w4 VEC_X) VEC_Y mot1
        in (w4, mot2)
      else (w\<lparr>u := (u w)(VEC_Y := 0, VEC_X := 0)\<rparr>, mot))"

text \<open>
  The control march of an armed tick, lines 244 to 349: the throttle and the attitude
  controllers first, then the lateral inputs. \<^verbatim>\<open>mot0\<close> is what the stack holds where the
  local array \<^verbatim>\<open>mot\<close> is placed: the loop of line 244 zeroes its first
  \<^verbatim>\<open>num_rotors\<close> entries only, and writes past the array when there are more rotors
  than \<^verbatim>\<open>ROTORS\<close>.
\<close>

definition attitude_march :: "platform \<Rightarrow> (nat \<Rightarrow> real) \<Rightarrow> controller \<Rightarrow> error + controller \<times> (nat \<Rightarrow> real)" where
  "attitude_march P mot0 w =
     (if num_rotors (settings w) > ROTORS P then Inl Mot_overrun
      else
        case throttle P w (\<lambda>i. if int i < num_rotors (settings w) then 0 else mot0 i) of
          Inl e \<Rightarrow> Inl e
        | Inr (w1, mot1) \<Rightarrow> rpy P w1 mot1)"

definition control_march :: "platform \<Rightarrow> (nat \<Rightarrow> real) \<Rightarrow> controller \<Rightarrow> error + controller \<times> (nat \<Rightarrow> real)" where
  "control_march P mot0 w =
     (case attitude_march P mot0 w of
        Inl e \<Rightarrow> Inl e
      | Inr (w2, mot2) \<Rightarrow> Inr (sixdof P w2 mot2))"

text \<open>The output loop, lines 354 to 361.\<close>

function send_motors :: "nat \<Rightarrow> int \<Rightarrow> (nat \<Rightarrow> real) \<Rightarrow> cstate_t \<Rightarrow> cstate_t \<times> (nat \<Rightarrow> real) \<times> event list" where
  "send_motors i n mot c =
     (if int i < n then
        let c1 = c\<lparr>cs_m := (cs_m c)(i := mot i)\<rparr>;
            mot1 = mot(i := saturate_double (mot i) 0 1);
            (c2, mot2, ev) = send_motors (Suc i) n mot1 c1
        in (c2, mot2, Esc (int i + 1) (mot1 i) # ev)
      else (c, mot, []))"
  by pat_completeness auto
termination
  by (relation "measure (\<lambda>(i, n, mot, c). nat (n - int i))") auto

declare send_motors.simps [simp del]

text \<open>The log entry, lines 366 to 386.\<close>

definition make_log :: "controller \<Rightarrow> log_entry_t" where
  "make_log w =
     \<lparr>log_loop_index = loop_index w,
      log_alt = cs_alt (cs w),
      log_roll = cs_roll (cs w),
      log_pitch = cs_pitch (cs w),
      log_yaw = cs_yaw (cs w),
      log_vbatt = cs_v_batt (cs w),
      log_u_thr = u w VEC_THR,
      log_u_roll = u w VEC_ROLL,
      log_u_pitch = u w VEC_PITCH,
      log_u_yaw = u w VEC_YAW,
      log_u_X = u w VEC_Y,
      log_u_Y = u w VEC_X,
      log_mot_1 = cs_m (cs w) 0,
      log_mot_2 = cs_m (cs w) 1,
      log_mot_3 = cs_m (cs w) 2,
      log_mot_4 = cs_m (cs w) 3,
      log_mot_5 = cs_m (cs w) 4,
      log_mot_6 = cs_m (cs w) 5\<rparr>"

definition add_log :: "controller \<Rightarrow> controller \<times> event list" where
  "add_log w =
     (if enable_logging (settings w)
      then (let w1 = w\<lparr>new_log := make_log w\<rparr> in (w1, [Add_log (new_log w1)]))
      else (w, []))"

text \<open>Lines 354 to 389: send the motor signals, log, count the loop.\<close>

definition finish :: "controller \<Rightarrow> (nat \<Rightarrow> real) \<Rightarrow> controller \<times> event list" where
  "finish w mot =
     (let (c, mot1, ev) = send_motors 0 (num_rotors (settings w)) mot (cs w);
          (w1, ev_log) = add_log (w\<lparr>cs := c\<rparr>)
      in (w1\<lparr>loop_index := loop_index w1 + 1\<rparr>, ev @ ev_log))"

definition feedback_controller :: "platform \<Rightarrow> (nat \<Rightarrow> real) \<Rightarrow> controller \<Rightarrow> error + int \<times> controller \<times> event list" where
  "feedback_controller P mot0 w =
     (let (w1, ev1) = pause_gate (state_estimation w)
      in if \<bar>cs_roll (cs w1)\<bar> > TIP_ANGLE P \<or> \<bar>cs_pitch (cs w1)\<bar> > TIP_ANGLE P then
           let (r, w2, ev2) = disarm_controller w1;
               ev3 = snd (set_motors_to_idle w2)
           in Inr (0, w2\<lparr>last_arm_state := DISARMED\<rparr>, ev1 @ ev2 @ [Printf tipover_message] @ ev3)
         else if rc_state w1 \<noteq> RUNNING \<or> arm_state w1 = DISARMED then
           Inr (0, w1, ev1 @ snd (set_motors_to_idle w1))
         else
           case control_march P mot0 w1 of
             Inl e \<Rightarrow> Inl e
           | Inr (w2, mot) \<Rightarrow> (let (w3, ev) = finish w2 mot in Inr (0, w3, ev1 @ ev)))"

text \<open>The motor commands among the events of a call: channel and value, in order.\<close>

fun esc_commands :: "event list \<Rightarrow> (int \<times> real) list" where
  "esc_commands [] = []"
| "esc_commands (Esc ch v # es) = (ch, v) # esc_commands es"
| "esc_commands (e # es) = esc_commands es"


text \<open>A tipover as the tick sees it: the roll and pitch it has just read from the IMU.\<close>

definition tipover :: "platform \<Rightarrow> controller \<Rightarrow> bool" where
  "tipover P w =
     (\<bar>fusedTaitBryan_Y (imu w)\<bar> > TIP_ANGLE P \<or> \<bar>fusedTaitBryan_X (imu w)\<bar> > TIP_ANGLE P)"

text \<open>What a returned tick leaves: its final state, and its events.\<close>

definition tick_final :: "error + int \<times> controller \<times> event list \<Rightarrow> controller option" where
  "tick_final res = (case res of Inl e \<Rightarrow> None | Inr (r, w, evs) \<Rightarrow> Some w)"


definition tick_motor :: "error + int \<times> controller \<times> event list \<Rightarrow> nat \<Rightarrow> real option" where
  "tick_motor res i = (case res of Inl e \<Rightarrow> None | Inr (r, w, evs) \<Rightarrow> Some (cs_m (cs w) i))"

text \<open>A tick that runs the armed control path: armed, running, and no tipover.\<close>

definition armed_path :: "platform \<Rightarrow> controller \<Rightarrow> bool" where
  "armed_path P w = (arm_state w = ARMED \<and> rc_state w = RUNNING \<and> \<not> tipover P w)"

text \<open>A mixer that does what \<^verbatim>\<open>g\<close> says on the axis slot \<^verbatim>\<open>VEC_X\<close>.\<close>

definition mixer_with_X :: "(real \<Rightarrow> (nat \<Rightarrow> real) \<Rightarrow> (nat \<Rightarrow> real)) \<Rightarrow> platform \<Rightarrow> platform" where
  "mixer_with_X g P =
     P\<lparr>add_mixed_input := (\<lambda>v a m. if a = VEC_X then g v m else add_mixed_input P v a m)\<rparr>"

text \<open>
  The clamp windows of the two lateral inputs (lines 330 to 332 and 339 to 341): the
  headroom of the channel, cut to the component limit.
\<close>

definition lateral_window_Y :: "platform \<Rightarrow> (nat \<Rightarrow> real) \<Rightarrow> real \<times> real" where
  "lateral_window_Y P mot = limit_window (MAX_X_COMPONENT P) (check_channel_saturation P VEC_Y mot)"

definition lateral_window_X :: "platform \<Rightarrow> (nat \<Rightarrow> real) \<Rightarrow> real \<times> real" where
  "lateral_window_X P mot = limit_window (MAX_Y_COMPONENT P) (check_channel_saturation P VEC_X mot)"

subsection \<open>A concrete platform\<close>

text \<open>
  Modelled from the spec: \<^verbatim>\<open>add_mixed_input\<close> is a function of the repository's mixer,
  which is not in \<^verbatim>\<open>src/\<close>. It adds \<^verbatim>\<open>u * M[axis, rotor]\<close> to each motor;
  \<^verbatim>\<open>M\<close> is the mixing matrix and \<^verbatim>\<open>n\<close> the number of rotors.
\<close>

definition add_mixed_input_spec :: "(axis \<Rightarrow> nat \<Rightarrow> real) \<Rightarrow> nat \<Rightarrow> real \<Rightarrow> axis \<Rightarrow> (nat \<Rightarrow> real) \<Rightarrow> (nat \<Rightarrow> real)" where
  "add_mixed_input_spec M n v a mot = (\<lambda>r. if r < n then mot r + v * M a r else mot r)"

text \<open>The largest finite \<^verbatim>\<open>double\<close>: the bound of a channel that nothing limits.\<close>

definition DBL_MAX :: real where
  "DBL_MAX = (2 ^ 53 - 1) * 2 ^ 971"

text \<open>
  The inputs \<^verbatim>\<open>u\<close> that keep one motor within \<^verbatim>\<open>[0, 1]\<close>, for a motor at
  \<^verbatim>\<open>m\<close> with the mixing coefficient \<^verbatim>\<open>c\<close>, not zero.
\<close>

definition channel_bounds :: "real \<Rightarrow> real \<Rightarrow> real \<times> real" where
  "channel_bounds c m = (if c > 0 then ((0 - m) / c, (1 - m) / c) else ((1 - m) / c, (0 - m) / c))"

text \<open>
  Modelled from the spec: \<^verbatim>\<open>check_channel_saturation\<close> is a function of the
  repository's mixer, which is not in \<^verbatim>\<open>src/\<close>. It returns the exact interval of
  inputs on one axis that keep every motor within \<^verbatim>\<open>[0, 1]\<close>.
\<close>

definition check_channel_saturation_spec :: "(axis \<Rightarrow> nat \<Rightarrow> real) \<Rightarrow> nat \<Rightarrow> axis \<Rightarrow> (nat \<Rightarrow> real) \<Rightarrow> real \<times> real" where
  "check_channel_saturation_spec M n a mot =
     foldl (\<lambda>(lo, hi) r.
              if M a r = 0 then (lo, hi)
              else (max lo (fst (channel_bounds (M a r) (mot r))),
                    min hi (snd (channel_bounds (M a r) (mot r)))))
       (- DBL_MAX, DBL_MAX) [0..<n]"

text \<open>
  Modelled from the spec: \<^verbatim>\<open>march_filter\<close> (roboticscape) applies one sample of the
  compensator at the current gain, scaled down while the soft start ramps, saturates the
  output when a clamp is enabled, and shifts the delay line.
\<close>

definition march_filter_spec :: "d_filter_t \<Rightarrow> real \<Rightarrow> real \<times> d_filter_t" where
  "march_filter_spec D e =
     (let ins = e # in_buf D;
          k = (if ss_en D \<and> real (ss_step D) < ss_steps D
               then gain D * (real (ss_step D) / ss_steps D) else gain D);
          raw = k * sum_list (map2 (*) (numerator D) ins)
                - sum_list (map2 (*) (tl (denominator D)) (out_buf D));
          y = (if sat_en D then saturate_double raw (sat_min D) (sat_max D) else raw)
      in (y, D\<lparr>in_buf := take (length (in_buf D)) ins,
               out_buf := take (length (out_buf D)) (y # out_buf D),
               ss_step := Suc (ss_step D)\<rparr>))"

text \<open>
  The scenario of the spec's section 8: four rotors, a neutral mixing matrix with an equal
  throttle share of 0.25 per rotor, \<^verbatim>\<open>DT = 0.005\<close>, \<^verbatim>\<open>v_batt = v_nominal = 11.1\<close>.
\<close>

definition neutral_mix :: "axis \<Rightarrow> nat \<Rightarrow> real" where
  "neutral_mix a r = (if a = VEC_THR \<and> r < 4 then 1 / 4 else 0)"

definition quad_platform :: platform where
  "quad_platform =
     \<lparr>TIP_ANGLE = 3 / 2,
      MIN_THRUST_COMPONENT = 1 / 20,
      MAX_THRUST_COMPONENT = 3 / 4,
      MAX_ROLL_COMPONENT = 1 / 5,
      MAX_PITCH_COMPONENT = 1 / 5,
      MAX_YAW_COMPONENT = 1 / 5,
      MAX_X_COMPONENT = 1,
      MAX_Y_COMPONENT = 1,
      DT = 5 / 1000,
      ROTORS = 8,
      march_filter = march_filter_spec,
      add_mixed_input = add_mixed_input_spec neutral_mix 4,
      check_channel_saturation = check_channel_saturation_spec neutral_mix 4\<rparr>"

definition unit_filter :: d_filter_t where
  "unit_filter =
     \<lparr>gain = 1, numerator = [1], denominator = [1], in_buf = [], out_buf = [],
      sat_en = False, sat_min = 0, sat_max = 0, ss_en = False, ss_steps = 0, ss_step = 0\<rparr>"

definition level_setpoint :: setpoint_t where
  "level_setpoint =
     \<lparr>sp_roll = 0, sp_pitch = 0, sp_yaw = 0, sp_yaw_rate = 0, Z_throttle = - (1 / 2),
      X_throttle = 0, Y_throttle = 0, en_rpy_ctrl = False, en_6dof = False\<rparr>"

definition zero_stack :: "nat \<Rightarrow> real" where
  "zero_stack i = 0"

definition zero_log :: log_entry_t where
  "zero_log =
     \<lparr>log_loop_index = 0, log_alt = 0, log_roll = 0, log_pitch = 0, log_yaw = 0,
      log_vbatt = 0, log_u_thr = 0, log_u_roll = 0, log_u_pitch = 0, log_u_yaw = 0,
      log_u_X = 0, log_u_Y = 0, log_mot_1 = 0, log_mot_2 = 0, log_mot_3 = 0,
      log_mot_4 = 0, log_mot_5 = 0, log_mot_6 = 0\<rparr>"

text \<open>The controller as \<^verbatim>\<open>initialize_controller\<close> leaves it, level and at rest.\<close>

definition rest_state :: controller where
  "rest_state =
     \<lparr>arm_state = DISARMED,
      last_arm_state = DISARMED,
      D_roll = unit_filter,
      D_pitch = unit_filter,
      D_yaw = unit_filter,
      D_roll_gain_orig = 1,
      D_pitch_gain_orig = 1,
      D_yaw_gain_orig = 1,
      sp = level_setpoint,
      cs = \<lparr>cs_roll = 0, cs_pitch = 0, cs_yaw = 0, cs_alt = 0, cs_v_batt = 111 / 10,
             cs_m = zero_stack\<rparr>,
      imu = \<lparr>fusedTaitBryan_X = 0, fusedTaitBryan_Y = 0, fusedTaitBryan_Z = 0\<rparr>,
      settings = \<lparr>num_rotors = 4, v_nominal = 111 / 10, enable_logging = False\<rparr>,
      new_log = zero_log,
      num_yaw_spins = 0,
      last_yaw = 0,
      u = (\<lambda>a. 0),
      loop_index = 0,
      last_en_alt_ctrl = 0,
      last_usr_thr = 0,
      rc_state = RUNNING\<rparr>"

definition armed_state :: controller where
  "armed_state = rest_state\<lparr>arm_state := ARMED\<rparr>"



definition yawed :: "real \<Rightarrow> controller \<Rightarrow> controller" where
  "yawed a w = w\<lparr>imu := (imu w)\<lparr>fusedTaitBryan_Z := a\<rparr>\<rparr>"


definition with_setpoint :: "setpoint_t \<Rightarrow> controller \<Rightarrow> controller" where
  "with_setpoint s w = w\<lparr>sp := s\<rparr>"


definition lateral_setpoint :: setpoint_t where
  "lateral_setpoint = level_setpoint\<lparr>X_throttle := 1 / 10, Y_throttle := 1 / 5, en_6dof := True\<rparr>"

text \<open>
  Consecutive ticks: before each one the IMU delivers a new yaw reading. The run stops
  with \<^verbatim>\<open>None\<close> where a tick stops with an error.
\<close>

fun run_ticks :: "platform \<Rightarrow> (nat \<Rightarrow> real) \<Rightarrow> controller \<Rightarrow> real list \<Rightarrow> controller option" where
  "run_ticks P mot0 w [] = Some w"
| "run_ticks P mot0 w (z # zs) =
     (case feedback_controller P mot0 (yawed z w) of
        Inl e \<Rightarrow> None
      | Inr (r, w1, evs) \<Rightarrow> run_ticks P mot0 w1 zs)"

section \<open>Properties\<close>

subsection \<open>Idle pulses\<close>


lemma esc_commands_append: "esc_commands (xs @ ys) = esc_commands xs @ esc_commands ys"
  by (induction xs rule: esc_commands.induct) simp_all



subsection \<open>The gates of the tick\<close>

lemma state_estimation_frame:
  "arm_state (state_estimation w) = arm_state w"
  "rc_state (state_estimation w) = rc_state w"
  "settings (state_estimation w) = settings w"
  "loop_index (state_estimation w) = loop_index w"
  "cs_roll (cs (state_estimation w)) = fusedTaitBryan_Y (imu w)"
  "cs_pitch (cs (state_estimation w)) = fusedTaitBryan_X (imu w)"
  by (simp_all add: state_estimation_def Let_def)

lemma pause_gate_frame:
  "settings (fst (pause_gate w)) = settings w"
  "loop_index (fst (pause_gate w)) = loop_index w"
  "cs (fst (pause_gate w)) = cs w"
  "rc_state (fst (pause_gate w)) = rc_state w"
  "esc_commands (snd (pause_gate w)) = []"
  by (simp_all add: pause_gate_def disarm_controller_def)

lemma pause_gate_arm:
  "arm_state (fst (pause_gate w)) = (if rc_state w = RUNNING then arm_state w else DISARMED)"
  by (cases "arm_state w") (simp_all add: pause_gate_def disarm_controller_def)

lemma idle_tick:
  assumes "arm_state w = DISARMED \<or> rc_state w \<noteq> RUNNING" and "\<not> tipover P w"
  shows "feedback_controller P mot0 w =
     Inr (0, fst (pause_gate (state_estimation w)),
          snd (pause_gate (state_estimation w)) @
          snd (set_motors_to_idle (fst (pause_gate (state_estimation w)))))"
  using assms
  by (auto simp: feedback_controller_def tipover_def split_beta Let_def
      pause_gate_frame pause_gate_arm state_estimation_frame)

lemma rest_no_tipover: "\<not> tipover quad_platform rest_state"
  by (simp add: tipover_def quad_platform_def rest_state_def)




subsection \<open>The output loop\<close>


lemma send_motors_events:
  "snd (snd (send_motors i n mot c)) =
     map (\<lambda>k. Esc (int k + 1) (saturate_double (mot k) 0 1)) [i..<nat n]"
proof (induction i n mot c rule: send_motors.induct)
  case (1 i n mot c)
  let ?mot1 = "mot(i := saturate_double (mot i) 0 1)"
  let ?c1 = "c\<lparr>cs_m := (cs_m c)(i := mot i)\<rparr>"
  show ?case
  proof (cases "int i < n")
    case True
    then have u: "[i..<nat n] = i # [Suc i..<nat n]"
      by (simp add: upt_conv_Cons)
    have "snd (snd (send_motors (Suc i) n ?mot1 ?c1)) =
          map (\<lambda>k. Esc (int k + 1) (saturate_double (?mot1 k) 0 1)) [Suc i..<nat n]"
      by (rule 1 [OF True refl refl])
    also have "\<dots> = map (\<lambda>k. Esc (int k + 1) (saturate_double (mot k) 0 1)) [Suc i..<nat n]"
      by (rule map_cong) auto
    finally show ?thesis using True
      by (subst send_motors.simps) (simp add: u split_beta Let_def)
  next
    case False
    then show ?thesis by (subst send_motors.simps) simp
  qed
qed

lemma send_motors_cs:
  "fst (send_motors i n mot c) =
     c\<lparr>cs_m := (\<lambda>k. if i \<le> k \<and> int k < n then mot k else cs_m c k)\<rparr>"
proof (induction i n mot c rule: send_motors.induct)
  case (1 i n mot c)
  let ?mot1 = "mot(i := saturate_double (mot i) 0 1)"
  let ?c1 = "c\<lparr>cs_m := (cs_m c)(i := mot i)\<rparr>"
  show ?case
  proof (cases "int i < n")
    case True
    have f: "(\<lambda>k. if Suc i \<le> k \<and> int k < n then ?mot1 k else cs_m ?c1 k) =
             (\<lambda>k. if i \<le> k \<and> int k < n then mot k else cs_m c k)"
      using True by (auto simp: fun_eq_iff)
    have "fst (send_motors (Suc i) n ?mot1 ?c1) =
          ?c1\<lparr>cs_m := (\<lambda>k. if Suc i \<le> k \<and> int k < n then ?mot1 k else cs_m ?c1 k)\<rparr>"
      by (rule 1 [OF True refl refl])
    also have "\<dots> = c\<lparr>cs_m := (\<lambda>k. if i \<le> k \<and> int k < n then mot k else cs_m c k)\<rparr>"
      by (subst f) simp
    finally show ?thesis using True
      by (subst send_motors.simps) (simp add: split_beta Let_def)
  next
    case False
    have "(\<lambda>k. if i \<le> k \<and> int k < n then mot k else cs_m c k) = cs_m c"
      using False by (auto simp: fun_eq_iff)
    then show ?thesis using False by (subst send_motors.simps) simp
  qed
qed

lemma finish_events:
  "esc_commands (snd (finish w mot)) =
     map (\<lambda>k. (int k + 1, saturate_double (mot k) 0 1)) [0..<nat (num_rotors (settings w))]"
proof -
  have e: "esc_commands (map (\<lambda>k. Esc (int k + 1) (f k)) xs) = map (\<lambda>k. (int k + 1, f k)) xs" for f xs
    by (induction xs) simp_all
  show ?thesis
    by (simp add: finish_def add_log_def split_beta Let_def esc_commands_append
        send_motors_events e)
qed

subsection \<open>The armed control path\<close>

lemma finish_frame:
  "loop_index (fst (finish w mot)) = loop_index w + 1"
  "settings (fst (finish w mot)) = settings w"
  "arm_state (fst (finish w mot)) = arm_state w"
  "D_roll (fst (finish w mot)) = D_roll w"
  "D_pitch (fst (finish w mot)) = D_pitch w"
  "D_yaw (fst (finish w mot)) = D_yaw w"
  "u (fst (finish w mot)) = u w"
  "sp (fst (finish w mot)) = sp w"
  by (simp_all add: finish_def add_log_def split_beta Let_def)

lemma finish_cs_m:
  "cs_m (cs (fst (finish w mot))) =
     (\<lambda>k. if int k < num_rotors (settings w) then mot k else cs_m (cs w) k)"
  by (simp add: finish_def add_log_def split_beta Let_def send_motors_cs)

lemma throttle_frame:
  assumes "throttle P w mot = Inr (w1, mot1)"
  shows "loop_index w1 = loop_index w" "settings w1 = settings w" "cs w1 = cs w"
    "sp w1 = sp w" "D_roll w1 = D_roll w" "D_pitch w1 = D_pitch w" "D_yaw w1 = D_yaw w"
    "D_roll_gain_orig w1 = D_roll_gain_orig w" "D_pitch_gain_orig w1 = D_pitch_gain_orig w"
    "D_yaw_gain_orig w1 = D_yaw_gain_orig w"
  using assms by (auto simp: throttle_def Let_def split: if_splits)

lemma rpy_frame:
  assumes "rpy P w mot = Inr (w1, mot1)"
  shows "loop_index w1 = loop_index w" "settings w1 = settings w" "cs w1 = cs w"
    "en_6dof (sp w1) = en_6dof (sp w)" "X_throttle (sp w1) = X_throttle (sp w)"
    "Y_throttle (sp w1) = Y_throttle (sp w)"
  using assms by (auto simp: rpy_def Let_def split_beta split: if_splits)

lemma sixdof_frame:
  "loop_index (fst (sixdof P w mot)) = loop_index w"
  "settings (fst (sixdof P w mot)) = settings w"
  "cs (fst (sixdof P w mot)) = cs w"
  "sp (fst (sixdof P w mot)) = sp w"
  "D_roll (fst (sixdof P w mot)) = D_roll w"
  "D_pitch (fst (sixdof P w mot)) = D_pitch w"
  "D_yaw (fst (sixdof P w mot)) = D_yaw w"
  by (simp_all add: sixdof_def Let_def split_beta)

lemma attitude_march_Inr:
  assumes "attitude_march P mot0 w = Inr (w2, mot2)"
  shows "\<exists>w1 mot1.
           throttle P w (\<lambda>i. if int i < num_rotors (settings w) then 0 else mot0 i) = Inr (w1, mot1) \<and>
           rpy P w1 mot1 = Inr (w2, mot2) \<and> num_rotors (settings w) \<le> ROTORS P"
  using assms by (auto simp: attitude_march_def split: if_splits sum.splits)

lemma attitude_march_frame:
  assumes "attitude_march P mot0 w = Inr (w2, mot2)"
  shows "loop_index w2 = loop_index w" "settings w2 = settings w" "cs w2 = cs w"
    "en_6dof (sp w2) = en_6dof (sp w)" "X_throttle (sp w2) = X_throttle (sp w)"
    "Y_throttle (sp w2) = Y_throttle (sp w)"
proof -
  from attitude_march_Inr [OF assms] obtain w1 mot1 where
    t: "throttle P w (\<lambda>i. if int i < num_rotors (settings w) then 0 else mot0 i) = Inr (w1, mot1)"
    and r: "rpy P w1 mot1 = Inr (w2, mot2)"
    by blast
  show "loop_index w2 = loop_index w" "settings w2 = settings w" "cs w2 = cs w"
    "en_6dof (sp w2) = en_6dof (sp w)" "X_throttle (sp w2) = X_throttle (sp w)"
    "Y_throttle (sp w2) = Y_throttle (sp w)"
    by (simp_all add: rpy_frame [OF r] throttle_frame [OF t])
qed

lemma control_march_Inr:
  assumes "control_march P mot0 w = Inr (w3, mot3)"
  shows "\<exists>w2 mot2. attitude_march P mot0 w = Inr (w2, mot2) \<and> sixdof P w2 mot2 = (w3, mot3)"
  using assms by (auto simp: control_march_def split: sum.splits)

lemma control_march_frame:
  assumes "control_march P mot0 w = Inr (w3, mot3)"
  shows "loop_index w3 = loop_index w" "settings w3 = settings w" "cs w3 = cs w"
proof -
  from control_march_Inr [OF assms] obtain w2 mot2 where
    a: "attitude_march P mot0 w = Inr (w2, mot2)" and s: "sixdof P w2 mot2 = (w3, mot3)"
    by blast
  from s have w3: "w3 = fst (sixdof P w2 mot2)" by simp
  show "loop_index w3 = loop_index w" "settings w3 = settings w" "cs w3 = cs w"
    by (simp_all add: w3 sixdof_frame attitude_march_frame [OF a])
qed

lemma armed_gate:
  assumes "armed_path P w"
  shows "pause_gate (state_estimation w) = (state_estimation w, [])"
  using assms by (simp add: armed_path_def pause_gate_def state_estimation_frame)

lemma armed_tick:
  assumes "armed_path P w"
  shows "feedback_controller P mot0 w =
     (case control_march P mot0 (state_estimation w) of
        Inl e \<Rightarrow> Inl e
      | Inr (w2, mot) \<Rightarrow> Inr (0, fst (finish w2 mot), snd (finish w2 mot)))"
  using assms
  by (auto simp: feedback_controller_def armed_gate armed_path_def tipover_def
      state_estimation_frame split_beta split: sum.splits)

lemma armed_tick_Inr:
  assumes "armed_path P w" and "feedback_controller P mot0 w = Inr (r, w', evs)"
  shows "\<exists>w2 mot. control_march P mot0 (state_estimation w) = Inr (w2, mot) \<and>
           r = 0 \<and> w' = fst (finish w2 mot) \<and> evs = snd (finish w2 mot)"
  using assms(2) unfolding armed_tick [OF assms(1)]
  by (auto split: sum.splits)

lemma rpy_returns:
  assumes "en_rpy_ctrl (sp w) \<longrightarrow> cs_v_batt (cs w) \<noteq> 0"
  shows "\<exists>w2 mot2. rpy P w mot = Inr (w2, mot2)"
  using assms by (cases "en_rpy_ctrl (sp w)") (simp_all add: rpy_def Let_def split_beta)

lemma control_march_returns:
  assumes "num_rotors (settings w) \<le> ROTORS P"
    and "cos (cs_roll (cs w)) * cos (cs_pitch (cs w)) \<noteq> 0"
    and "en_rpy_ctrl (sp w) \<longrightarrow> cs_v_batt (cs w) \<noteq> 0"
  shows "\<exists>w3 mot3. control_march P mot0 w = Inr (w3, mot3)"
proof -
  let ?m = "\<lambda>i. if int i < num_rotors (settings w) then 0 else mot0 i"
  obtain w1 mot1 where t: "throttle P w ?m = Inr (w1, mot1)"
    using assms(2) by (simp add: throttle_def Let_def)
  have "en_rpy_ctrl (sp w1) \<longrightarrow> cs_v_batt (cs w1) \<noteq> 0"
    using assms(3) by (simp add: throttle_frame [OF t])
  from rpy_returns [OF this] obtain w2 mot2 where r: "rpy P w1 mot1 = Inr (w2, mot2)"
    by blast
  have "attitude_march P mot0 w = Inr (w2, mot2)"
    using assms(1) t r by (simp add: attitude_march_def)
  then show ?thesis
    by (cases "sixdof P w2 mot2") (simp add: control_march_def)
qed

lemma direct_throttle_march:
  assumes "\<not> en_rpy_ctrl (sp w)" and "\<not> en_6dof (sp w)"
    and "num_rotors (settings w) \<le> ROTORS P"
    and "cos (cs_roll (cs w)) * cos (cs_pitch (cs w)) \<noteq> 0"
    and "control_march P mot0 w = Inr (w3, mot3)"
  shows "mot3 = add_mixed_input P
           (saturate_double (Z_throttle (sp w) / (cos (cs_roll (cs w)) * cos (cs_pitch (cs w))))
              (- MIN_THRUST_COMPONENT P) (- MAX_THRUST_COMPONENT P))
           VEC_THR (\<lambda>i. if int i < num_rotors (settings w) then 0 else mot0 i)"
  using assms
  by (auto simp: control_march_def attitude_march_def throttle_def rpy_def sixdof_def Let_def)

lemma armed_state_path: "armed_path quad_platform armed_state"
  by (simp add: armed_path_def armed_state_def rest_state_def tipover_def quad_platform_def)

lemma armed_state_estimate:
  "cs_roll (cs (state_estimation armed_state)) = 0"
  "cs_pitch (cs (state_estimation armed_state)) = 0"
  "sp (state_estimation armed_state) = level_setpoint"
  "num_rotors (settings (state_estimation armed_state)) = 4"
  "loop_index (state_estimation armed_state) = 0"
  by (simp_all add: state_estimation_def Let_def armed_state_def rest_state_def)

lemma armed_state_march:
  "\<exists>w3 mot3. control_march quad_platform zero_stack (state_estimation armed_state) = Inr (w3, mot3) \<and>
     (\<forall>k<4. mot3 k = - (1 / 8))"
proof -
  have r: "num_rotors (settings (state_estimation armed_state)) \<le> ROTORS quad_platform"
    by (simp add: armed_state_estimate quad_platform_def)
  have c: "cos (cs_roll (cs (state_estimation armed_state))) *
           cos (cs_pitch (cs (state_estimation armed_state))) \<noteq> 0"
    by (simp add: armed_state_estimate)
  have e: "\<not> en_rpy_ctrl (sp (state_estimation armed_state))"
      "\<not> en_6dof (sp (state_estimation armed_state))"
    by (simp_all add: armed_state_estimate level_setpoint_def)
  from control_march_returns [OF r c, of zero_stack] e obtain w3 mot3 where
    m: "control_march quad_platform zero_stack (state_estimation armed_state) = Inr (w3, mot3)"
    by blast
  have "mot3 k = - (1 / 8)" if "k < 4" for k
    using that unfolding direct_throttle_march [OF e r c m]
    by (simp add: armed_state_estimate level_setpoint_def quad_platform_def
        add_mixed_input_spec_def neutral_mix_def saturate_double_def)
  with m show ?thesis by blast
qed

lemma upt_4: "[0..<4] = [0, 1, 2, 3::nat]"
  by code_simp



subsection \<open>Tipover, core motors and the loop counter\<close>

lemma state_estimation_cs_m: "cs_m (cs (state_estimation w)) = cs_m (cs w)"
  by (simp add: state_estimation_def Let_def)

lemma tipover_tick:
  assumes "tipover P w"
  shows "feedback_controller P mot0 w =
     Inr (0, (state_estimation w)\<lparr>arm_state := DISARMED, last_arm_state := DISARMED\<rparr>,
          snd (pause_gate (state_estimation w)) @
          [Led RED 1, Led GREEN 0, Stop_log, Printf tipover_message] @
          snd (set_motors_to_idle w))"
  using assms
  by (auto simp: feedback_controller_def tipover_def split_beta Let_def pause_gate_def
      disarm_controller_def set_motors_to_idle_def state_estimation_frame)




text \<open>
  C6, as amended. A tick that runs the armed control path copies each motor value of the
  control march into \<^verbatim>\<open>core.motors[i]\<close> before the final saturation (line 357, and
  the comment above it), and sends its clamp to \<^verbatim>\<open>[0, 1]\<close>: core state holds the
  unclamped value, for \<^verbatim>\<open>i\<close> below \<^verbatim>\<open>num_rotors\<close>, and keeps the other entries.
\<close>

theorem core_motors_unclamped:
  assumes "armed_path P w" and "control_march P mot0 (state_estimation w) = Inr (w2, mot)"
  shows "\<exists>w' evs. feedback_controller P mot0 w = Inr (0, w', evs) \<and>
           cs_m (cs w') = (\<lambda>k. if int k < num_rotors (settings w) then mot k else cs_m (cs w) k) \<and>
           esc_commands evs =
             map (\<lambda>k. (int k + 1, saturate_double (mot k) 0 1)) [0..<nat (num_rotors (settings w))]"
proof -
  have t: "feedback_controller P mot0 w = Inr (0, fst (finish w2 mot), snd (finish w2 mot))"
    by (simp add: armed_tick [OF assms(1)] assms(2))
  have s: "settings w2 = settings w" "cs_m (cs w2) = cs_m (cs w)"
    by (simp_all add: control_march_frame [OF assms(2)] state_estimation_frame state_estimation_cs_m)
  have "cs_m (cs (fst (finish w2 mot))) =
      (\<lambda>k. if int k < num_rotors (settings w) then mot k else cs_m (cs w) k)"
    by (auto simp: finish_cs_m s fun_eq_iff)
  moreover have "esc_commands (snd (finish w2 mot)) =
      map (\<lambda>k. (int k + 1, saturate_double (mot k) 0 1)) [0..<nat (num_rotors (settings w))]"
    by (simp add: finish_events s)
  ultimately show ?thesis using t by blast
qed

theorem core_motors_unclamped_witness:
  "armed_path quad_platform armed_state \<and>
   (\<exists>w2 mot. control_march quad_platform zero_stack (state_estimation armed_state) = Inr (w2, mot) \<and>
      (\<exists>w' evs. feedback_controller quad_platform zero_stack armed_state = Inr (0, w', evs) \<and>
         cs_m (cs w') 0 = mot 0 \<and> mot 0 = - (1 / 8) \<and>
         esc_commands evs = [(1, 0), (2, 0), (3, 0), (4, 0)]))"
proof -
  from armed_state_march obtain w3 mot3 where
    m: "control_march quad_platform zero_stack (state_estimation armed_state) = Inr (w3, mot3)"
    and v: "\<And>k. k < 4 \<Longrightarrow> mot3 k = - (1 / 8)"
    by blast
  have n: "num_rotors (settings armed_state) = 4"
    by (simp add: armed_state_def rest_state_def)
  from core_motors_unclamped [OF armed_state_path m] obtain w' evs where
    t: "feedback_controller quad_platform zero_stack armed_state = Inr (0, w', evs)"
    and c: "cs_m (cs w') = (\<lambda>k. if int k < 4 then mot3 k else cs_m (cs armed_state) k)"
    and e: "esc_commands evs = map (\<lambda>k. (int k + 1, saturate_double (mot3 k) 0 1)) [0..<4]"
    by (auto simp: n)
  have "cs_m (cs w') 0 = mot3 0" by (simp add: c)
  moreover have "mot3 0 = - (1 / 8)" by (simp add: v)
  moreover have "esc_commands evs = [(1, 0), (2, 0), (3, 0), (4, 0)]"
    by (simp add: e upt_4 v saturate_double_def)
  ultimately show ?thesis using armed_state_path m t by blast
qed

text \<open>
  C6 as stated fails in the spec's own scenario: level, throttle -0.5 and a throttle share
  of 0.25 per rotor leave -0.125 in \<^verbatim>\<open>core.motors[0]\<close>.
\<close>

theorem core_motor_negative_counterexample:
  "armed_path quad_platform armed_state \<and>
   tick_motor (feedback_controller quad_platform zero_stack armed_state) 0 = Some (- (1 / 8)) \<and>
   \<not> (0 \<le> - (1 / 8 :: real))"
proof -
  from armed_state_march obtain w3 mot3 where
    m: "control_march quad_platform zero_stack (state_estimation armed_state) = Inr (w3, mot3)"
    and v: "\<And>k. k < 4 \<Longrightarrow> mot3 k = - (1 / 8)"
    by blast
  have s: "num_rotors (settings w3) = 4"
    by (simp add: control_march_frame [OF m] armed_state_estimate)
  have "tick_motor (feedback_controller quad_platform zero_stack armed_state) 0 = Some (- (1 / 8))"
    by (simp add: armed_tick [OF armed_state_path] m tick_motor_def split_beta finish_cs_m s v)
  then show ?thesis using armed_state_path by simp
qed

text \<open>
  C7, as amended. \<^verbatim>\<open>loop_index\<close> grows by exactly 1 (modulo \<^verbatim>\<open>2^64\<close>) on every
  tick that runs the armed control path, with or without logging; a tick that returns at
  the tipover gate or at the idle gate (lines 229 and 237) leaves it as it was.
\<close>

theorem loop_index_step:
  assumes "feedback_controller P mot0 w = Inr (r, w', evs)"
  shows "loop_index w' = (if armed_path P w then loop_index w + 1 else loop_index w)"
proof (cases "armed_path P w")
  case True
  from armed_tick_Inr [OF True assms] obtain w2 mot where
    m: "control_march P mot0 (state_estimation w) = Inr (w2, mot)"
    and w': "w' = fst (finish w2 mot)"
    by blast
  show ?thesis
    using True by (simp add: w' finish_frame control_march_frame [OF m] state_estimation_frame)
next
  case False
  show ?thesis
  proof (cases "tipover P w")
    case True
    from assms have "w' = (state_estimation w)\<lparr>arm_state := DISARMED, last_arm_state := DISARMED\<rparr>"
      by (simp add: tipover_tick [OF True])
    then show ?thesis using False by (simp add: state_estimation_frame)
  next
    case nt: False
    with False have a: "arm_state w = DISARMED \<or> rc_state w \<noteq> RUNNING"
      by (cases "arm_state w") (auto simp: armed_path_def)
    from assms have "w' = fst (pause_gate (state_estimation w))"
      by (simp add: idle_tick [OF a nt])
    then show ?thesis using False by (simp add: pause_gate_frame state_estimation_frame)
  qed
qed

theorem loop_index_step_witness:
  "\<exists>r w' evs. feedback_controller quad_platform zero_stack armed_state = Inr (r, w', evs) \<and>
     loop_index w' = 1"
proof -
  from armed_state_march obtain w3 mot3 where
    m: "control_march quad_platform zero_stack (state_estimation armed_state) = Inr (w3, mot3)"
    by blast
  have t: "feedback_controller quad_platform zero_stack armed_state =
      Inr (0, fst (finish w3 mot3), snd (finish w3 mot3))"
    by (simp add: armed_tick [OF armed_state_path] m)
  have "loop_index armed_state = 0"
    by (simp add: armed_state_def rest_state_def)
  with loop_index_step [OF t] armed_state_path have "loop_index (fst (finish w3 mot3)) = 1"
    by simp
  with t show ?thesis by blast
qed

text \<open>C7 as stated fails on a disarmed tick: \<^verbatim>\<open>loop_index\<close> stays at 0.\<close>

theorem disarmed_loop_index_counterexample:
  "arm_state rest_state = DISARMED \<and>
   map_option loop_index (tick_final (feedback_controller quad_platform zero_stack rest_state)) =
     Some (loop_index rest_state) \<and>
   loop_index rest_state \<noteq> loop_index rest_state + 1"
proof -
  have a: "arm_state rest_state = DISARMED \<or> rc_state rest_state \<noteq> RUNNING"
    by (simp add: rest_state_def)
  have "map_option loop_index (tick_final (feedback_controller quad_platform zero_stack rest_state)) =
     Some (loop_index rest_state)"
    by (simp add: idle_tick [OF a rest_no_tipover] tick_final_def pause_gate_frame
        state_estimation_frame)
  then show ?thesis by (simp add: rest_state_def)
qed

subsection \<open>Arming\<close>

lemma reset_filter_zero:
  "set (in_buf (reset_filter D)) \<subseteq> {0}" "set (out_buf (reset_filter D)) \<subseteq> {0}"
  "ss_step (reset_filter D) = 0" "gain (reset_filter D) = gain D"
  by (auto simp: reset_filter_def)

text \<open>
  C9. \<^verbatim>\<open>arm_controller\<close> on an armed controller prints the warning, changes no state
  and sends nothing else (no log start, no LED call), and returns -1. On a disarmed
  controller it starts the log manager when logging is enabled, resets the three
  compensators (their delay lines hold zeros afterwards) and the yaw spin count, switches
  the red LED off and the green one on, flags the controller \<^verbatim>\<open>ARMED\<close> and returns 0.
\<close>

theorem arm_controller_cases:
  "(arm_state w = ARMED \<longrightarrow> arm_controller P w = (- 1, w, [Printf arm_warning])) \<and>
   (arm_state w = DISARMED \<longrightarrow>
      (\<exists>w'. arm_controller P w =
               (0, w', (if enable_logging (settings w) then [Start_log] else []) @
                       [Led RED 0, Led GREEN 1]) \<and>
            arm_state w' = ARMED \<and>
            D_roll w' = reset_filter (D_roll w) \<and>
            D_pitch w' = reset_filter (D_pitch w) \<and>
            D_yaw w' = reset_filter (D_yaw w) \<and>
            set (in_buf (D_roll w') @ out_buf (D_roll w') @ in_buf (D_pitch w') @
                 out_buf (D_pitch w') @ in_buf (D_yaw w') @ out_buf (D_yaw w')) \<subseteq> {0} \<and>
            num_yaw_spins w' = 0))"
  using reset_filter_zero
  by (auto simp: arm_controller_def zero_out_controller_def Let_def)

theorem arm_controller_cases_witness:
  "arm_state armed_state = ARMED \<and>
   arm_controller quad_platform armed_state = (- 1, armed_state, [Printf arm_warning]) \<and>
   arm_state rest_state = DISARMED \<and>
   (\<exists>w'. arm_controller quad_platform rest_state = (0, w', [Led RED 0, Led GREEN 1]) \<and>
          arm_state w' = ARMED \<and> num_yaw_spins w' = 0)"
proof -
  have a: "arm_state armed_state = ARMED"
    by (simp add: armed_state_def)
  have d: "arm_state rest_state = DISARMED" "\<not> enable_logging (settings rest_state)"
    by (simp_all add: rest_state_def)
  from arm_controller_cases [of armed_state quad_platform] a
  have 1: "arm_controller quad_platform armed_state = (- 1, armed_state, [Printf arm_warning])"
    by simp
  from arm_controller_cases [of rest_state quad_platform] d
  have 2: "\<exists>w'. arm_controller quad_platform rest_state = (0, w', [Led RED 0, Led GREEN 1]) \<and>
          arm_state w' = ARMED \<and> num_yaw_spins w' = 0"
    by auto
  from a d 1 2 show ?thesis by blast
qed

subsection \<open>The yaw estimate\<close>

lemma state_estimation_yaw:
  "cs_yaw (cs (state_estimation w)) =
     fusedTaitBryan_Z (imu w) + of_int (num_yaw_spins (state_estimation w)) * TWO_PI"
  "last_yaw (state_estimation w) = double_to_int (cs_yaw (cs (state_estimation w)))"
  by (simp_all add: state_estimation_def Let_def)

lemma num_yaw_spins_step:
  "\<bar>num_yaw_spins (state_estimation w) - num_yaw_spins w\<bar> \<le> 1"
  by (simp add: state_estimation_def Let_def)

lemma disarmed_tick_estimate:
  assumes "arm_state w = DISARMED" and "\<not> tipover P w"
  shows "tick_final (feedback_controller P mot0 w) = Some (state_estimation w)"
  using assms by (simp add: idle_tick tick_final_def pause_gate_def state_estimation_frame)

lemma throttle_yaw:
  assumes "throttle P w mot = Inr (w1, mot1)"
  shows "num_yaw_spins w1 = num_yaw_spins w" "last_yaw w1 = last_yaw w"
  using assms by (auto simp: throttle_def Let_def split: if_splits)

lemma rpy_yaw:
  assumes "rpy P w mot = Inr (w1, mot1)"
  shows "num_yaw_spins w1 = num_yaw_spins w" "last_yaw w1 = last_yaw w"
  using assms by (auto simp: rpy_def Let_def split_beta split: if_splits)

lemma sixdof_yaw:
  "num_yaw_spins (fst (sixdof P w mot)) = num_yaw_spins w"
  "last_yaw (fst (sixdof P w mot)) = last_yaw w"
  by (simp_all add: sixdof_def Let_def split_beta)

lemma finish_yaw:
  "num_yaw_spins (fst (finish w mot)) = num_yaw_spins w"
  "last_yaw (fst (finish w mot)) = last_yaw w"
  "cs_yaw (cs (fst (finish w mot))) = cs_yaw (cs w)"
  by (simp_all add: finish_def add_log_def split_beta Let_def send_motors_cs)

lemma pause_gate_yaw:
  "num_yaw_spins (fst (pause_gate w)) = num_yaw_spins w"
  "last_yaw (fst (pause_gate w)) = last_yaw w"
  by (simp_all add: pause_gate_def disarm_controller_def)

lemma control_march_yaw:
  assumes "control_march P mot0 w = Inr (w3, mot3)"
  shows "num_yaw_spins w3 = num_yaw_spins w" "last_yaw w3 = last_yaw w"
proof -
  from control_march_Inr [OF assms] obtain w2 mot2 where
    a: "attitude_march P mot0 w = Inr (w2, mot2)" and s: "sixdof P w2 mot2 = (w3, mot3)"
    by blast
  from attitude_march_Inr [OF a] obtain w1 mot1 where
    t: "throttle P w (\<lambda>i. if int i < num_rotors (settings w) then 0 else mot0 i) = Inr (w1, mot1)"
    and r: "rpy P w1 mot1 = Inr (w2, mot2)"
    by blast
  from s have w3: "w3 = fst (sixdof P w2 mot2)"
    by simp
  show "num_yaw_spins w3 = num_yaw_spins w" "last_yaw w3 = last_yaw w"
    by (simp_all add: w3 sixdof_yaw rpy_yaw [OF r] throttle_yaw [OF t])
qed

lemma tick_yaw_estimate:
  assumes "feedback_controller P mot0 w = Inr (r, w', evs)"
  shows "num_yaw_spins w' = num_yaw_spins (state_estimation w)"
    "last_yaw w' = last_yaw (state_estimation w)"
    "cs_yaw (cs w') = cs_yaw (cs (state_estimation w))"
proof -
  have "num_yaw_spins w' = num_yaw_spins (state_estimation w) \<and>
        last_yaw w' = last_yaw (state_estimation w) \<and>
        cs_yaw (cs w') = cs_yaw (cs (state_estimation w))"
  proof (cases "armed_path P w")
    case True
    from armed_tick_Inr [OF True assms] obtain w2 mot where
      m: "control_march P mot0 (state_estimation w) = Inr (w2, mot)"
      and w': "w' = fst (finish w2 mot)"
      by blast
    show ?thesis
      by (simp add: w' finish_yaw control_march_yaw [OF m] control_march_frame [OF m])
  next
    case False
    show ?thesis
    proof (cases "tipover P w")
      case True
      from assms have "w' = (state_estimation w)\<lparr>arm_state := DISARMED, last_arm_state := DISARMED\<rparr>"
        by (simp add: tipover_tick [OF True])
      then show ?thesis by simp
    next
      case nt: False
      with False have a: "arm_state w = DISARMED \<or> rc_state w \<noteq> RUNNING"
        by (cases "arm_state w") (auto simp: armed_path_def)
      from assms have "w' = fst (pause_gate (state_estimation w))"
        by (simp add: idle_tick [OF a nt])
      then show ?thesis by (simp add: pause_gate_yaw pause_gate_frame)
    qed
  qed
  then show "num_yaw_spins w' = num_yaw_spins (state_estimation w)"
    "last_yaw w' = last_yaw (state_estimation w)"
    "cs_yaw (cs w') = cs_yaw (cs (state_estimation w))"
    by simp_all
qed

text \<open>
  What every returned tick publishes, whatever path it takes: the raw IMU yaw, with the
  sign it came with, plus the spin count times \<^verbatim>\<open>2 * pi\<close>; \<^verbatim>\<open>last_yaw\<close> keeps the
  integer part of it; the spin count moves by one at most.
\<close>

lemma tick_yaw_published:
  assumes "feedback_controller P mot0 w = Inr (r, w', evs)"
  shows "cs_yaw (cs w') = fusedTaitBryan_Z (imu w) + of_int (num_yaw_spins w') * TWO_PI"
    and "last_yaw w' = double_to_int (cs_yaw (cs w'))"
    and "\<bar>num_yaw_spins w' - num_yaw_spins w\<bar> \<le> 1"
  using num_yaw_spins_step [of w]
  by (simp_all add: tick_yaw_estimate [OF assms] state_estimation_yaw [symmetric])

lemma half_yaw_estimate:
  "cs_yaw (cs (state_estimation (yawed (1 / 2) rest_state))) = 1 / 2"
  "num_yaw_spins (state_estimation (yawed (1 / 2) rest_state)) = 0"
  "last_yaw (state_estimation (yawed (1 / 2) rest_state)) = 0"
  using pi_ge_two
  by (simp_all add: state_estimation_def Let_def yawed_def rest_state_def PI_def TWO_PI_def
      double_to_int_def)

text \<open>
  C4, evaluated at an IMU yaw of 0.5 with no spin counted. The tick publishes
  \<^verbatim>\<open>core.yaw = +0.5\<close>: line 208 adds the raw reading without the minus sign that
  line 203 and the comment of line 202 give it, so the published yaw is not
  \<^verbatim>\<open>-imu_yaw_raw + num_spins * 2 * pi = -0.5\<close>. \<^verbatim>\<open>last_yaw\<close>, declared
  \<^verbatim>\<open>int\<close>, keeps 0 and not the published 0.5.
\<close>

theorem yaw_published_without_sign:
  "map_option (cs_yaw \<circ> cs)
     (tick_final (feedback_controller quad_platform zero_stack (yawed (1 / 2) rest_state))) = Some (1 / 2) \<and>
   map_option num_yaw_spins
     (tick_final (feedback_controller quad_platform zero_stack (yawed (1 / 2) rest_state))) = Some 0 \<and>
   map_option last_yaw
     (tick_final (feedback_controller quad_platform zero_stack (yawed (1 / 2) rest_state))) = Some 0 \<and>
   - fusedTaitBryan_Z (imu (yawed (1 / 2) rest_state)) + of_int 0 * TWO_PI = - (1 / 2)"
proof -
  have a: "arm_state (yawed (1 / 2) rest_state) = DISARMED"
    by (simp add: yawed_def rest_state_def)
  have t: "\<not> tipover quad_platform (yawed (1 / 2) rest_state)"
    by (simp add: tipover_def yawed_def rest_state_def quad_platform_def)
  show ?thesis
    by (simp add: disarmed_tick_estimate [OF a t] half_yaw_estimate) (simp add: yawed_def)
qed


lemma estimate_yawed:
  "num_yaw_spins (state_estimation (yawed z w)) =
     (if - z + of_int (num_yaw_spins w) * TWO_PI - of_int (last_yaw w) < - PI
      then num_yaw_spins w + 1
      else if - z + of_int (num_yaw_spins w) * TWO_PI - of_int (last_yaw w) > PI
      then num_yaw_spins w - 1 else num_yaw_spins w)"
  "cs_yaw (cs (state_estimation (yawed z w))) =
     z + of_int (num_yaw_spins (state_estimation (yawed z w))) * TWO_PI"
  "last_yaw (state_estimation (yawed z w)) =
     double_to_int (cs_yaw (cs (state_estimation (yawed z w))))"
  "arm_state (state_estimation (yawed z w)) = arm_state w"
  "tipover P (state_estimation (yawed z w)) = tipover P w"
  "tipover P (yawed z w) = tipover P w"
  "arm_state (yawed z w) = arm_state w"
  by (simp_all add: state_estimation_def Let_def yawed_def tipover_def)

lemma first_estimate_at_2:
  "num_yaw_spins (state_estimation (yawed 2 rest_state)) = 0"
  "cs_yaw (cs (state_estimation (yawed 2 rest_state))) = 2"
  "last_yaw (state_estimation (yawed 2 rest_state)) = 2"
proof -
  have n: "num_yaw_spins rest_state = 0" "last_yaw rest_state = 0"
    by (simp_all add: rest_state_def)
  show 1: "num_yaw_spins (state_estimation (yawed 2 rest_state)) = 0"
    using pi_ge_two by (simp add: estimate_yawed n PI_def)
  show 2: "cs_yaw (cs (state_estimation (yawed 2 rest_state))) = 2"
    by (simp add: estimate_yawed(2) 1)
  show "last_yaw (state_estimation (yawed 2 rest_state)) = 2"
    by (simp add: estimate_yawed(3) 2 double_to_int_def)
qed

lemma second_estimate_at_2:
  "num_yaw_spins (state_estimation (yawed 2 (state_estimation (yawed 2 rest_state)))) = 1"
  "cs_yaw (cs (state_estimation (yawed 2 (state_estimation (yawed 2 rest_state))))) = 2 + TWO_PI"
proof -
  show 1: "num_yaw_spins (state_estimation (yawed 2 (state_estimation (yawed 2 rest_state)))) = 1"
    using pi_less_4
    by (simp add: estimate_yawed(1) [of 2 "state_estimation (yawed 2 rest_state)"]
        first_estimate_at_2 PI_def)
  show "cs_yaw (cs (state_estimation (yawed 2 (state_estimation (yawed 2 rest_state))))) = 2 + TWO_PI"
    by (simp add: estimate_yawed(2) [of 2 "state_estimation (yawed 2 rest_state)"] 1)
qed

lemma run_two_ticks_at_2:
  "run_ticks quad_platform zero_stack rest_state [2] = Some (state_estimation (yawed 2 rest_state))"
  "run_ticks quad_platform zero_stack rest_state [2, 2] =
     Some (state_estimation (yawed 2 (state_estimation (yawed 2 rest_state))))"
proof -
  have a: "arm_state rest_state = DISARMED"
    by (simp add: rest_state_def)
  have 1: "tick_final (feedback_controller quad_platform zero_stack (yawed 2 rest_state)) =
      Some (state_estimation (yawed 2 rest_state))"
    by (rule disarmed_tick_estimate) (simp_all add: estimate_yawed a rest_no_tipover)
  have 2: "tick_final (feedback_controller quad_platform zero_stack
        (yawed 2 (state_estimation (yawed 2 rest_state)))) =
      Some (state_estimation (yawed 2 (state_estimation (yawed 2 rest_state))))"
    by (rule disarmed_tick_estimate) (simp_all add: estimate_yawed a rest_no_tipover)
  show "run_ticks quad_platform zero_stack rest_state [2] =
      Some (state_estimation (yawed 2 rest_state))"
    using 1 by (auto simp: tick_final_def split: sum.splits)
  show "run_ticks quad_platform zero_stack rest_state [2, 2] =
      Some (state_estimation (yawed 2 (state_estimation (yawed 2 rest_state))))"
    using 1 2 by (auto simp: tick_final_def split: sum.splits)
qed

theorem yaw_published_without_sign_witness:
  "map_option (cs_yaw \<circ> cs)
     (tick_final (feedback_controller quad_platform zero_stack (yawed (1 / 2) rest_state))) \<noteq>
   Some (- fusedTaitBryan_Z (imu (yawed (1 / 2) rest_state)) + of_int 0 * TWO_PI)"
proof -
  have e: "map_option (cs_yaw \<circ> cs)
      (tick_final (feedback_controller quad_platform zero_stack (yawed (1 / 2) rest_state))) =
      Some (1 / 2)"
    using yaw_published_without_sign by (rule conjunct1)
  have f: "- fusedTaitBryan_Z (imu (yawed (1 / 2) rest_state)) + of_int 0 * TWO_PI = - (1 / 2)"
    by (simp add: yawed_def)
  show ?thesis unfolding e f by simp
qed

text \<open>
  C5, evaluated on two consecutive ticks with the IMU yaw held at 2.0, from the state at
  program start. The first tick publishes 2 and counts no spin; the second compares
  \<^verbatim>\<open>-2\<close> with the \<^verbatim>\<open>last_yaw = 2\<close> of the unnegated line 208, counts a spin, and
  publishes \<^verbatim>\<open>2 + 2 * pi\<close>: the yaw jumps by a full turn, more than
  \<^verbatim>\<open>pi + 0\<close>, while the reading has not moved.
\<close>

theorem still_heading_jumps:
  "map_option (cs_yaw \<circ> cs) (run_ticks quad_platform zero_stack rest_state [2]) = Some 2 \<and>
   map_option (cs_yaw \<circ> cs) (run_ticks quad_platform zero_stack rest_state [2, 2]) = Some (2 + TWO_PI) \<and>
   map_option num_yaw_spins (run_ticks quad_platform zero_stack rest_state [2]) = Some 0 \<and>
   map_option num_yaw_spins (run_ticks quad_platform zero_stack rest_state [2, 2]) = Some 1 \<and>
   PI + \<bar>2 - 2\<bar> < \<bar>(2 + TWO_PI) - 2\<bar>"
  unfolding run_two_ticks_at_2
  by (simp add: first_estimate_at_2 second_estimate_at_2) (simp add: PI_def TWO_PI_def)

theorem still_heading_jumps_witness:
  "map_option (cs_yaw \<circ> cs) (run_ticks quad_platform zero_stack rest_state [2, 2]) \<noteq>
   map_option (cs_yaw \<circ> cs) (run_ticks quad_platform zero_stack rest_state [2])"
proof -
  have a: "map_option (cs_yaw \<circ> cs) (run_ticks quad_platform zero_stack rest_state [2]) = Some 2"
    using still_heading_jumps by (rule conjunct1)
  have b: "map_option (cs_yaw \<circ> cs) (run_ticks quad_platform zero_stack rest_state [2, 2]) =
      Some (2 + TWO_PI)"
    using still_heading_jumps by (rule conjunct2 [THEN conjunct1])
  show ?thesis unfolding a b by (simp add: TWO_PI_def)
qed

subsection \<open>Battery gain scheduling\<close>



lemma state_estimation_keeps:
  "D_roll_gain_orig (state_estimation w) = D_roll_gain_orig w"
  "D_pitch_gain_orig (state_estimation w) = D_pitch_gain_orig w"
  "D_yaw_gain_orig (state_estimation w) = D_yaw_gain_orig w"
  "cs_v_batt (cs (state_estimation w)) = cs_v_batt (cs w)"
  "sp (state_estimation w) = sp w"
  "D_roll (state_estimation w) = D_roll w"
  by (simp_all add: state_estimation_def Let_def)










subsection \<open>The lateral inputs\<close>

lemma mixer_with_X_fields:
  "check_channel_saturation (mixer_with_X g P) = check_channel_saturation P"
  "march_filter (mixer_with_X g P) = march_filter P"
  "TIP_ANGLE (mixer_with_X g P) = TIP_ANGLE P"
  "MIN_THRUST_COMPONENT (mixer_with_X g P) = MIN_THRUST_COMPONENT P"
  "MAX_THRUST_COMPONENT (mixer_with_X g P) = MAX_THRUST_COMPONENT P"
  "MAX_ROLL_COMPONENT (mixer_with_X g P) = MAX_ROLL_COMPONENT P"
  "MAX_PITCH_COMPONENT (mixer_with_X g P) = MAX_PITCH_COMPONENT P"
  "MAX_YAW_COMPONENT (mixer_with_X g P) = MAX_YAW_COMPONENT P"
  "MAX_X_COMPONENT (mixer_with_X g P) = MAX_X_COMPONENT P"
  "MAX_Y_COMPONENT (mixer_with_X g P) = MAX_Y_COMPONENT P"
  "DT (mixer_with_X g P) = DT P"
  "ROTORS (mixer_with_X g P) = ROTORS P"
  "a \<noteq> VEC_X \<Longrightarrow> add_mixed_input (mixer_with_X g P) v a m = add_mixed_input P v a m"
  by (simp_all add: mixer_with_X_def)

lemma axis_filter_mixer: "axis_filter (mixer_with_X g P) = axis_filter P"
  by (simp add: fun_eq_iff axis_filter_def mixer_with_X_fields)

lemma throttle_mixer: "throttle (mixer_with_X g P) = throttle P"
  by (simp add: fun_eq_iff throttle_def mixer_with_X_fields)

lemma rpy_mixer: "rpy (mixer_with_X g P) = rpy P"
  by (simp add: fun_eq_iff rpy_def mixer_with_X_fields axis_filter_mixer)

lemma sixdof_mixer: "sixdof (mixer_with_X g P) = sixdof P"
  by (simp add: fun_eq_iff sixdof_def mixer_with_X_fields)

lemma control_march_mixer: "control_march (mixer_with_X g P) = control_march P"
  unfolding control_march_def attitude_march_def throttle_mixer rpy_mixer sixdof_mixer
    mixer_with_X_fields(12)
  by (rule refl)

lemma feedback_controller_mixer:
  "feedback_controller (mixer_with_X g P) mot0 w = feedback_controller P mot0 w"
  unfolding feedback_controller_def control_march_mixer mixer_with_X_fields(3)
  by (rule refl)

lemma sixdof_enabled:
  assumes "en_6dof (sp w)"
  shows "sixdof P w mot =
    (let uy = saturate_double (X_throttle (sp w)) (fst (lateral_window_Y P mot))
                (snd (lateral_window_Y P mot));
         mot1 = add_mixed_input P uy VEC_Y mot;
         ux = saturate_double (Y_throttle (sp w)) (fst (lateral_window_X P mot1))
                (snd (lateral_window_X P mot1))
     in (w\<lparr>u := (u w)(VEC_Y := uy, VEC_X := ux)\<rparr>, add_mixed_input P ux VEC_Y mot1))"
  using assms
  by (simp add: sixdof_def Let_def split_beta lateral_window_Y_def lateral_window_X_def)

text \<open>
  C10. On a tick that runs the armed control path with \<^verbatim>\<open>en_6dof\<close> set,
  \<^verbatim>\<open>u[VEC_Y]\<close> is \<^verbatim>\<open>sp.X_throttle\<close> and \<^verbatim>\<open>u[VEC_X]\<close> is
  \<^verbatim>\<open>sp.Y_throttle\<close>, each cut to the window of its own channel; both are added to the
  motor vector through the mixer slot \<^verbatim>\<open>VEC_Y\<close> (lines 335 and 344), as the motor
  values recorded in core state show; and the mixer is never asked for the slot
  \<^verbatim>\<open>VEC_X\<close>: whatever it would do there, the tick returns the same state and the same
  events. \<^verbatim>\<open>mot2\<close> is the motor vector after the throttle and attitude phases.
\<close>

theorem lateral_inputs_mixed_through_Y:
  assumes "armed_path P w" and "en_6dof (sp w)"
    and "attitude_march P mot0 (state_estimation w) = Inr (w2, mot2)"
  shows "\<exists>w' evs. feedback_controller P mot0 w = Inr (0, w', evs) \<and>
      u w' VEC_Y = saturate_double (X_throttle (sp w)) (fst (lateral_window_Y P mot2))
                     (snd (lateral_window_Y P mot2)) \<and>
      u w' VEC_X = saturate_double (Y_throttle (sp w))
                     (fst (lateral_window_X P (add_mixed_input P (u w' VEC_Y) VEC_Y mot2)))
                     (snd (lateral_window_X P (add_mixed_input P (u w' VEC_Y) VEC_Y mot2))) \<and>
      (\<forall>k. int k < num_rotors (settings w) \<longrightarrow>
         cs_m (cs w') k =
           add_mixed_input P (u w' VEC_X) VEC_Y (add_mixed_input P (u w' VEC_Y) VEC_Y mot2) k) \<and>
      (\<forall>g. feedback_controller (mixer_with_X g P) mot0 w = Inr (0, w', evs))"
proof -
  let ?uy = "saturate_double (X_throttle (sp w)) (fst (lateral_window_Y P mot2))
                (snd (lateral_window_Y P mot2))"
  let ?mot1 = "add_mixed_input P ?uy VEC_Y mot2"
  let ?ux = "saturate_double (Y_throttle (sp w)) (fst (lateral_window_X P ?mot1))
                (snd (lateral_window_X P ?mot1))"
  let ?w3 = "w2\<lparr>u := (u w2)(VEC_Y := ?uy, VEC_X := ?ux)\<rparr>"
  let ?mot3 = "add_mixed_input P ?ux VEC_Y ?mot1"
  have k: "en_6dof (sp w2)" "X_throttle (sp w2) = X_throttle (sp w)"
    "Y_throttle (sp w2) = Y_throttle (sp w)" "settings w2 = settings w"
    using assms(2) by (simp_all add: attitude_march_frame [OF assms(3)] state_estimation_keeps
        state_estimation_frame)
  have s: "sixdof P w2 mot2 = (?w3, ?mot3)"
    by (simp add: sixdof_enabled [OF k(1)] Let_def k)
  have m: "control_march P mot0 (state_estimation w) = Inr (?w3, ?mot3)"
    by (simp add: control_march_def assms(3) s)
  have t: "feedback_controller P mot0 w = Inr (0, fst (finish ?w3 ?mot3), snd (finish ?w3 ?mot3))"
    by (simp add: armed_tick [OF assms(1)] m)
  have uu: "u (fst (finish ?w3 ?mot3)) VEC_Y = ?uy" "u (fst (finish ?w3 ?mot3)) VEC_X = ?ux"
    by (simp_all add: finish_frame)
  have c: "cs_m (cs (fst (finish ?w3 ?mot3))) k = ?mot3 k" if "int k < num_rotors (settings w)" for k
    using that by (simp add: finish_cs_m k)
  show ?thesis
    apply (rule exI [of _ "fst (finish ?w3 ?mot3)"])
    apply (rule exI [of _ "snd (finish ?w3 ?mot3)"])
    apply (simp only: uu feedback_controller_mixer t)
    apply (simp add: c)
    done
qed


lemma foldl_keep: "foldl (\<lambda>acc r. acc) a xs = a"
  by (induction xs) simp_all

lemma neutral_lateral_headroom:
  assumes "a \<noteq> VEC_THR"
  shows "check_channel_saturation_spec neutral_mix n a m = (- DBL_MAX, DBL_MAX)"
proof -
  have "(\<lambda>(lo, hi) r.
           if neutral_mix a r = 0 then (lo, hi)
           else (max lo (fst (channel_bounds (neutral_mix a r) (m r))),
                 min hi (snd (channel_bounds (neutral_mix a r) (m r))))) =
        (\<lambda>acc r. acc)"
    using assms by (simp add: fun_eq_iff neutral_mix_def)
  then show ?thesis
    by (simp add: check_channel_saturation_spec_def foldl_keep)
qed

lemma DBL_MAX_gt_1: "1 < DBL_MAX"
  by (simp add: DBL_MAX_def)

lemma quad_lateral_windows:
  "lateral_window_Y quad_platform m = (- 1, 1)"
  "lateral_window_X quad_platform m = (- 1, 1)"
  using DBL_MAX_gt_1
  by (simp_all add: lateral_window_Y_def lateral_window_X_def quad_platform_def
      neutral_lateral_headroom limit_window_def)

theorem lateral_inputs_mixed_through_Y_witness:
  "armed_path quad_platform (with_setpoint lateral_setpoint armed_state) \<and>
   en_6dof (sp (with_setpoint lateral_setpoint armed_state)) \<and>
   (\<exists>w2 mot2.
      attitude_march quad_platform zero_stack
        (state_estimation (with_setpoint lateral_setpoint armed_state)) = Inr (w2, mot2) \<and>
      (\<exists>w' evs.
         feedback_controller quad_platform zero_stack (with_setpoint lateral_setpoint armed_state) =
           Inr (0, w', evs) \<and>
         u w' VEC_Y = 1 / 10 \<and> u w' VEC_X = 1 / 5 \<and>
         cs_m (cs w') 0 =
           add_mixed_input quad_platform (1 / 5) VEC_Y
             (add_mixed_input quad_platform (1 / 10) VEC_Y mot2) 0))"
proof -
  let ?w = "with_setpoint lateral_setpoint armed_state"
  have p: "armed_path quad_platform ?w"
    by (simp add: armed_path_def tipover_def with_setpoint_def armed_state_def rest_state_def
        quad_platform_def)
  have f: "en_6dof (sp ?w)" "X_throttle (sp ?w) = 1 / 10" "Y_throttle (sp ?w) = 1 / 5"
    "num_rotors (settings ?w) = 4" "\<not> en_rpy_ctrl (sp ?w)"
    by (simp_all add: with_setpoint_def lateral_setpoint_def level_setpoint_def armed_state_def
        rest_state_def)
  have c: "num_rotors (settings (state_estimation ?w)) \<le> ROTORS quad_platform"
    "cos (cs_roll (cs (state_estimation ?w))) * cos (cs_pitch (cs (state_estimation ?w))) \<noteq> 0"
    "en_rpy_ctrl (sp (state_estimation ?w)) \<longrightarrow> cs_v_batt (cs (state_estimation ?w)) \<noteq> 0"
    by (simp_all add: state_estimation_frame state_estimation_keeps f)
      (simp_all add: quad_platform_def with_setpoint_def armed_state_def rest_state_def)
  from control_march_returns [OF c, of zero_stack] obtain w3 mot3 where
    "control_march quad_platform zero_stack (state_estimation ?w) = Inr (w3, mot3)"
    by blast
  from control_march_Inr [OF this] obtain w2 mot2 where
    a: "attitude_march quad_platform zero_stack (state_estimation ?w) = Inr (w2, mot2)"
    by blast
  from lateral_inputs_mixed_through_Y [OF p f(1) a] obtain w' evs where
    t: "feedback_controller quad_platform zero_stack ?w = Inr (0, w', evs)"
    and y: "u w' VEC_Y = saturate_double (X_throttle (sp ?w))
              (fst (lateral_window_Y quad_platform mot2)) (snd (lateral_window_Y quad_platform mot2))"
    and x: "u w' VEC_X = saturate_double (Y_throttle (sp ?w))
              (fst (lateral_window_X quad_platform
                     (add_mixed_input quad_platform (u w' VEC_Y) VEC_Y mot2)))
              (snd (lateral_window_X quad_platform
                     (add_mixed_input quad_platform (u w' VEC_Y) VEC_Y mot2)))"
    and m: "\<forall>k. int k < num_rotors (settings ?w) \<longrightarrow>
         cs_m (cs w') k =
           add_mixed_input quad_platform (u w' VEC_X) VEC_Y
             (add_mixed_input quad_platform (u w' VEC_Y) VEC_Y mot2) k"
    by blast
  have y': "u w' VEC_Y = 1 / 10"
    by (simp add: y quad_lateral_windows f saturate_double_def)
  have x': "u w' VEC_X = 1 / 5"
    by (simp add: x quad_lateral_windows f saturate_double_def)
  have "cs_m (cs w') 0 =
      add_mixed_input quad_platform (1 / 5) VEC_Y
        (add_mixed_input quad_platform (1 / 10) VEC_Y mot2) 0"
    using m [rule_format, of 0] by (simp add: f x' y')
  with p f(1) a t y' x' show ?thesis by blast
qed

end
